theory Spec2Isabelle
  imports Complex_Main "HOL-Library.Sublist"
begin

section \<open>Values, errors and rows\<close>

text \<open>
  The pipeline of \<^verbatim>\<open>train_model.py\<close> works on pandas data frames of float64 cells.
  A finite float is idealised as a real number. A cell of one of the input columns is a
  \<open>real option\<close>, \<open>None\<close> being the missing value (NaN): every comparison with it is false
  and the column statistics skip it, as pandas does. The two derived columns are quotients
  and can also be infinite, so they hold an \<open>fval\<close>. Signed zeros and rounding are outside
  the model.
\<close>

datatype error = ValueError string | OtherError string

datatype fval = Fin real | PInf | NInf | NaN

record row =
  timestamp :: string
  ratio :: "real option"
  variability :: "real option"
  slope :: "real option"
  glucose :: "real option"

record frow = row +
  pulse_rate :: fval
  acdc_ratio :: fval

datatype colname = Ratio | Variability | Slope | Glucose

fun column :: "colname \<Rightarrow> 'a row_scheme \<Rightarrow> real option" where
  "column Ratio r = ratio r"
| "column Variability r = variability r"
| "column Slope r = slope r"
| "column Glucose r = glucose r"

text \<open>The values of a column that are present, in row order.\<close>

fun present :: "('r \<Rightarrow> real option) \<Rightarrow> 'r list \<Rightarrow> real list" where
  "present c [] = []"
| "present c (r # rs) = (case c r of None \<Rightarrow> present c rs | Some x \<Rightarrow> x # present c rs)"

text \<open>Comparison of a cell with a number: false on a missing cell.\<close>

fun cell_ge :: "real option \<Rightarrow> real \<Rightarrow> bool" where
  "cell_ge None b = False"
| "cell_ge (Some x) b = (b \<le> x)"

fun cell_le :: "real option \<Rightarrow> real \<Rightarrow> bool" where
  "cell_le None b = False"
| "cell_le (Some x) b = (x \<le> b)"

section \<open>DatasetLoader\<close>

text \<open>
  A data frame as \<^verbatim>\<open>read_csv\<close> returns it: the column names and the records, each record
  aligned with the columns. The file system and the parser are the environment of
  \<^verbatim>\<open>load_data\<close>: which paths are directories, what a directory lists, and what parsing a
  path gives (a frame, or the exception it raises). Console output is left out.
\<close>

datatype cell = Num real | Txt string | Missing

record frame =
  columns :: "string list"
  records :: "cell list list"

record os =
  isdir :: "string \<Rightarrow> bool"
  listdir :: "string \<Rightarrow> string list"
  read_csv :: "string \<Rightarrow> error + frame"

definition endswith :: "string \<Rightarrow> string \<Rightarrow> bool" where
  "endswith s suf = (length suf \<le> length s \<and> drop (length s - length suf) s = suf)"

text \<open>\<^verbatim>\<open>os.path.join\<close> of two components (POSIX).\<close>

definition path_join :: "string \<Rightarrow> string \<Rightarrow> string" where
  "path_join a b =
     (if b \<noteq> [] \<and> hd b = CHR ''/'' then b
      else if a = [] \<or> last a = CHR ''/'' then a @ b
      else a @ ''/'' @ b)"

text \<open>The loop over the files of the directory: a file that fails to parse adds nothing.\<close>

fun load_files :: "(string \<Rightarrow> error + frame) \<Rightarrow> string \<Rightarrow> string list \<Rightarrow> frame list" where
  "load_files rd data_path [] = []"
| "load_files rd data_path (file # files) =
     (case rd (path_join data_path file) of
        Inr df \<Rightarrow> df # load_files rd data_path files
      | Inl e \<Rightarrow> load_files rd data_path files)"

text \<open>
  \<^verbatim>\<open>pd.concat(dfs, ignore_index=True)\<close>: the columns are the union of the frames' columns
  in order of first appearance, and a record has a missing cell where its frame lacks the
  column.
\<close>

definition first_occurrences :: "'a list \<Rightarrow> 'a list" where
  "first_occurrences xs = rev (remdups (rev xs))"

definition reindex :: "string list \<Rightarrow> string list \<Rightarrow> cell list \<Rightarrow> cell list" where
  "reindex old new record =
     map (\<lambda>c. case map_of (zip old record) c of Some v \<Rightarrow> v | None \<Rightarrow> Missing) new"

definition concat_frames :: "frame list \<Rightarrow> frame" where
  "concat_frames dfs =
     (let cols = first_occurrences (concat (map columns dfs))
      in \<lparr>columns = cols,
          records = concat (map (\<lambda>df. map (reindex (columns df) cols) (records df)) dfs)\<rparr>)"

definition no_valid_files :: error where
  "no_valid_files = ValueError ''No valid CSV files found in directory''"

text \<open>The directory branch of \<^verbatim>\<open>load_data\<close> (lines 36 to 52).\<close>

definition load_directory :: "os \<Rightarrow> string \<Rightarrow> error + frame" where
  "load_directory env data_path =
     (let files = filter (\<lambda>f. endswith f ''.csv'') (listdir env data_path);
          dfs = load_files (read_csv env) data_path files
      in if dfs = [] then Inl no_valid_files else Inr (concat_frames dfs))"

definition required_cols :: "string list" where
  "required_cols = [''timestamp'', ''ratio'', ''variability'', ''slope'', ''glucose'']"

text \<open>
  The text of a set of names in the error message; Python fixes no order for it, the
  model lists the names in the order of \<open>required_cols\<close>.
\<close>

fun set_repr_items :: "string list \<Rightarrow> string" where
  "set_repr_items [] = []"
| "set_repr_items [x] = [CHR 0x27] @ x @ [CHR 0x27]"
| "set_repr_items (x # xs) = [CHR 0x27] @ x @ [CHR 0x27] @ '', '' @ set_repr_items xs"

definition set_repr :: "string list \<Rightarrow> string" where
  "set_repr xs = ''{'' @ set_repr_items xs @ ''}''"

definition drop_duplicates :: "frame \<Rightarrow> frame" where
  "drop_duplicates data = data\<lparr>records := first_occurrences (records data)\<rparr>"

definition dropna_glucose :: "frame \<Rightarrow> frame" where
  "dropna_glucose data =
     data\<lparr>records := filter (\<lambda>r. map_of (zip (columns data) r) ''glucose'' \<noteq> Some Missing)
                                (records data)\<rparr>"

definition load_data :: "os \<Rightarrow> string \<Rightarrow> error + frame" where
  "load_data env data_path =
     (case (if isdir env data_path then load_directory env data_path
            else read_csv env data_path) of
        Inl e \<Rightarrow> Inl e
      | Inr data \<Rightarrow>
          if \<not> set required_cols \<subseteq> set (columns data)
          then Inl (ValueError (''Missing required columns: '' @
                 set_repr (filter (\<lambda>c. c \<notin> set (columns data)) required_cols)))
          else Inr (dropna_glucose (drop_duplicates data)))"

section \<open>Column statistics\<close>

text \<open>
  \<^verbatim>\<open>Series.quantile(q)\<close> with the default linear interpolation: on the sorted present
  values \<open>s\<close> of length \<open>n\<close>, the position is \<open>h = (n - 1) * q\<close> and the result lies between
  \<open>s[floor h]\<close> and \<open>s[ceil h]\<close>. On no values the result is NaN.
\<close>

definition quantile :: "real list \<Rightarrow> real \<Rightarrow> real option" where
  "quantile vs q =
     (if vs = [] then None
      else let s = sort vs;
               h = real (length s - 1) * q;
               lo = nat \<lfloor>h\<rfloor>;
               hi = nat \<lceil>h\<rceil>
           in Some (s ! lo + (s ! hi - s ! lo) * (h - real lo)))"

text \<open>The median of a non-empty list, as \<^verbatim>\<open>SimpleImputer(strategy='median')\<close> computes it.\<close>

definition median :: "real list \<Rightarrow> real" where
  "median vs =
     (let s = sort vs; n = length s
      in if odd n then s ! (n div 2) else (s ! (n div 2 - 1) + s ! (n div 2)) / 2)"

section \<open>Preprocessor\<close>

text \<open>
  \<^verbatim>\<open>imputer.fit_transform(data[['ratio', 'variability', 'slope']])\<close> assigned back to the
  three columns. The imputer rejects a frame with no row, and it drops a column with no
  present value, so that the assignment of the narrower result fails: both are a
  \<^verbatim>\<open>ValueError\<close>.
\<close>

definition fill :: "real \<Rightarrow> real option \<Rightarrow> real option" where
  "fill m c = (case c of None \<Rightarrow> Some m | Some x \<Rightarrow> Some x)"

definition impute :: "row list \<Rightarrow> error + row list" where
  "impute data =
     (if data = [] then Inl (ValueError ''Found array with 0 sample(s)'')
      else if present ratio data = [] \<or> present variability data = [] \<or> present slope data = []
      then Inl (ValueError ''Columns must be same length as key'')
      else Inr (map (\<lambda>r. r\<lparr>ratio := fill (median (present ratio data)) (ratio r),
                            variability := fill (median (present variability data)) (variability r),
                            slope := fill (median (present slope data)) (slope r)\<rparr>) data))"

text \<open>\<^verbatim>\<open>data[(data['glucose'] >= 40) & (data['glucose'] <= 400)]\<close>\<close>

definition physiological :: "'a row_scheme \<Rightarrow> bool" where
  "physiological r = (cell_ge (glucose r) 40 \<and> cell_le (glucose r) 400)"

text \<open>
  Float division of two cells, without any exception: a zero denominator gives an infinity
  of the sign of the numerator, and NaN for \<open>0 / 0\<close>; a missing operand gives NaN.
\<close>

fun fdiv :: "real option \<Rightarrow> real option \<Rightarrow> fval" where
  "fdiv (Some x) (Some y) =
     (if y = 0 then (if x = 0 then NaN else if 0 < x then PInf else NInf) else Fin (x / y))"
| "fdiv _ _ = NaN"

text \<open>
  The constant \<^verbatim>\<open>1e-6\<close> added to the variability in line 87, and the two derived columns
  of lines 87 and 88.
\<close>

definition eps :: real where
  "eps = 1 / 10 ^ 6"

definition derive :: "row \<Rightarrow> frow" where
  "derive r =
     \<lparr>timestamp = timestamp r, ratio = ratio r, variability = variability r,
      slope = slope r, glucose = glucose r,
      pulse_rate = fdiv (Some 60) (map_option (\<lambda>v. v + eps) (variability r)),
      acdc_ratio = fdiv (variability r) (ratio r)\<rparr>"

text \<open>
  One column's step of \<^verbatim>\<open>remove_outliers\<close>: the quartiles are taken on the frame as it
  is at this step, and a row stays when its cell lies within the two bounds.
\<close>

definition in_bounds :: "real \<Rightarrow> real option \<Rightarrow> real option \<Rightarrow> real option \<Rightarrow> bool" where
  "in_bounds factor q1 q3 c =
     (case (q1, q3) of
        (Some a, Some b) \<Rightarrow> cell_ge c (a - factor * (b - a)) \<and> cell_le c (b + factor * (b - a))
      | _ \<Rightarrow> False)"

definition keeps :: "real \<Rightarrow> colname \<Rightarrow> 'a row_scheme list \<Rightarrow> 'a row_scheme \<Rightarrow> bool" where
  "keeps factor col df r =
     in_bounds factor (quantile (present (column col) df) (1 / 4))
                      (quantile (present (column col) df) (3 / 4)) (column col r)"

definition filter_column :: "real \<Rightarrow> 'a row_scheme list \<Rightarrow> colname \<Rightarrow> 'a row_scheme list" where
  "filter_column factor df col = filter (keeps factor col df) df"

definition remove_outliers :: "'a row_scheme list \<Rightarrow> colname list \<Rightarrow> real \<Rightarrow> 'a row_scheme list" where
  "remove_outliers df cols factor = foldl (filter_column factor) df cols"

definition outlier_columns :: "colname list" where
  "outlier_columns = [Ratio, Variability, Slope, Glucose]"

text \<open>The outlier-removal stage as \<^verbatim>\<open>preprocess_data\<close> calls it (default factor 1.5).\<close>

definition outlier_stage :: "'a row_scheme list \<Rightarrow> 'a row_scheme list" where
  "outlier_stage df = remove_outliers df outlier_columns (3 / 2)"

definition preprocess_data :: "row list \<Rightarrow> error + frow list" where
  "preprocess_data data =
     (case impute data of
        Inl e \<Rightarrow> Inl e
      | Inr imputed \<Rightarrow> Inr (outlier_stage (map derive (filter physiological imputed))))"

section \<open>Splitter/Scaler\<close>

text \<open>
  The feature matrix is held by columns, as a data frame is; all columns have the same
  length. \<^verbatim>\<open>StandardScaler\<close> keeps, once fitted, the mean and the population variance of
  each column; a scaler that is not fitted holds nothing. Fitting rejects a matrix with no
  row. \<^verbatim>\<open>transform\<close> reads the fitted parameters and leaves them as they are.
\<close>

type_synonym matrix = "real list list"

record scaler_params =
  fitted_mean :: "real list"
  fitted_var :: "real list"

definition mean :: "real list \<Rightarrow> real" where
  "mean xs = sum_list xs / real (length xs)"

definition variance :: "real list \<Rightarrow> real" where
  "variance xs = mean (map (\<lambda>x. (x - mean xs)\<^sup>2) xs)"

definition no_samples :: "matrix \<Rightarrow> bool" where
  "no_samples X = (X = [] \<or> list_ex (\<lambda>c. c = []) X)"

definition scaler_fit :: "matrix \<Rightarrow> error + scaler_params" where
  "scaler_fit X =
     (if no_samples X then Inl (ValueError ''Found array with 0 sample(s)'')
      else Inr \<lparr>fitted_mean = map mean X, fitted_var = map variance X\<rparr>)"

definition scale_of :: "real \<Rightarrow> real" where
  "scale_of v = (if v = 0 then 1 else sqrt v)"

definition scaler_apply :: "scaler_params \<Rightarrow> matrix \<Rightarrow> error + matrix" where
  "scaler_apply p X =
     (if no_samples X then Inl (ValueError ''Found array with 0 sample(s)'')
      else if length X \<noteq> length (fitted_mean p)
      then Inl (ValueError ''X has a different number of features than the scaler'')
      else Inr (map (\<lambda>(c, m, v). map (\<lambda>x. (x - m) / scale_of v) c)
                    (zip X (zip (fitted_mean p) (fitted_var p)))))"

definition fit_transform :: "scaler_params option \<Rightarrow> matrix \<Rightarrow> (error + matrix) \<times> scaler_params option" where
  "fit_transform scaler X =
     (case scaler_fit X of
        Inl e \<Rightarrow> (Inl e, None)
      | Inr p \<Rightarrow> (scaler_apply p X, Some p))"

definition transform :: "scaler_params option \<Rightarrow> matrix \<Rightarrow> (error + matrix) \<times> scaler_params option" where
  "transform scaler X =
     (case scaler of
        None \<Rightarrow> (Inl (OtherError ''NotFittedError''), scaler)
      | Some p \<Rightarrow> (scaler_apply p X, scaler))"

text \<open>
  Lines 275 to 277 of \<^verbatim>\<open>main\<close>: a new scaler, \<^verbatim>\<open>fit_transform\<close> on the training
  features, \<^verbatim>\<open>transform\<close> on the test features. The result is the pair of scaled matrices
  (or the first error), together with the scaler as the three lines leave it.
\<close>

definition standardize :: "matrix \<Rightarrow> matrix \<Rightarrow> (error + matrix \<times> matrix) \<times> scaler_params option" where
  "standardize X_train X_test =
     (let scaler = None;
          (r1, scaler) = fit_transform scaler X_train
      in case r1 of
           Inl e \<Rightarrow> (Inl e, scaler)
         | Inr train \<Rightarrow>
             (let (r2, scaler) = transform scaler X_test
              in case r2 of
                   Inl e \<Rightarrow> (Inl e, scaler)
                 | Inr test \<Rightarrow> (Inr (train, test), scaler)))"

section \<open>ModelFactory\<close>

text \<open>
  The estimators \<^verbatim>\<open>train_model\<close> constructs, with the arguments it gives them:
  \<open>RandomForestRegressor n_estimators max_depth random_state\<close> and
  \<open>GradientBoostingRegressor n_estimators learning_rate max_depth random_state\<close>.
  Fitting belongs to the library: \<open>fit\<close> is a parameter, returning the fitted model or the
  error it raises.
\<close>

datatype estimator =
    LinearRegression
  | RandomForestRegressor nat nat nat
  | GradientBoostingRegressor nat real nat nat

definition train_model ::
  "(estimator \<Rightarrow> 'x \<Rightarrow> 'y \<Rightarrow> error + 'm) \<Rightarrow> 'x \<Rightarrow> 'y \<Rightarrow> string \<Rightarrow> error + 'm" where
  "train_model fit X_train y_train model_type =
     (if model_type = ''linear'' then fit LinearRegression X_train y_train
      else if model_type = ''random_forest''
      then fit (RandomForestRegressor 100 5 42) X_train y_train
      else if model_type = ''gradient_boosting''
      then fit (GradientBoostingRegressor 100 (1 / 10) 3 42) X_train y_train
      else Inl (ValueError (''Unknown model type: '' @ model_type)))"

definition supported_types :: "string list" where
  "supported_types = [''linear'', ''random_forest'', ''gradient_boosting'']"

text \<open>A message names a word when the word occurs in it.\<close>

definition names_all :: "string \<Rightarrow> string list \<Rightarrow> bool" where
  "names_all msg ws = list_all (\<lambda>w. sublist w msg) ws"

section \<open>Evaluator: clinical accuracy\<close>

text \<open>
  Lines 294 and 295 of \<^verbatim>\<open>main\<close> are meant to assign the two clinical-accuracy fractions:
  \<^verbatim>\<open>within_15 = np.mean(np.abs(results['actuals'] - results['predictions']) < 15\<close>
  and the same with 20. Both lines open \<^verbatim>\<open>np.mean(\<close> and never close it, so that the
  module is not valid Python and no fraction is computed. A line that does not parse has
  no behaviour to embed, and none is defined here.
\<close>

section \<open>ArtifactExporter\<close>

text \<open>
  A fitted model is a linear regression with its intercept and coefficients, one of the
  two tree ensembles, or an object of any other class, of which only the class name
  matters here.
\<close>

datatype model =
    LinearModel real "real list"
  | RandomForestModel
  | GradientBoostingModel
  | OtherModel string

fun class_name :: "model \<Rightarrow> string" where
  "class_name (LinearModel b ws) = ''LinearRegression''"
| "class_name RandomForestModel = ''RandomForestRegressor''"
| "class_name GradientBoostingModel = ''GradientBoostingRegressor''"
| "class_name (OtherModel name) = name"

text \<open>Decimal digits, zero padding and \<^verbatim>\<open>strftime("%Y%m%d_%H%M%S")\<close>.\<close>

definition digit :: "nat \<Rightarrow> char" where
  "digit d = ''0123456789'' ! d"

fun digits :: "nat \<Rightarrow> string" where
  "digits n = (if n < 10 then [digit n] else digits (n div 10) @ [digit (n mod 10)])"

declare digits.simps [simp del]

definition zfill :: "nat \<Rightarrow> string \<Rightarrow> string" where
  "zfill w s = replicate (w - length s) (CHR ''0'') @ s"

record instant =
  year :: nat
  month :: nat
  day :: nat
  hour :: nat
  minute :: nat
  second :: nat
  nanosecond :: nat

definition strftime :: "instant \<Rightarrow> string" where
  "strftime t =
     zfill 4 (digits (year t)) @ zfill 2 (digits (month t)) @ zfill 2 (digits (day t)) @ ''_'' @
     zfill 2 (digits (hour t)) @ zfill 2 (digits (minute t)) @ zfill 2 (digits (second t))"

text \<open>
  The format \<^verbatim>\<open>:.6f\<close> of a finite number: the sign, the integer part, a point and six
  digits, the value rounded to the nearest millionth, a tie going to the even one.
\<close>

definition round_half_even :: "real \<Rightarrow> nat" where
  "round_half_even y =
     (let f = nat \<lfloor>y\<rfloor>; d = y - real f
      in if d < 1 / 2 then f else if 1 / 2 < d then f + 1 else if even f then f else f + 1)"

definition sign_text :: "real \<Rightarrow> string" where
  "sign_text x = (if x < 0 then ''-'' else [])"

definition format_6f :: "real \<Rightarrow> string" where
  "format_6f x =
     (let q = round_half_even (\<bar>x\<bar> * 10 ^ 6)
      in sign_text x @ digits (q div 10 ^ 6) @ ''.'' @ zfill 6 (digits (q mod 10 ^ 6)))"

text \<open>
  What a file holds: the table \<^verbatim>\<open>to_csv\<close> writes (its column names and its rows; the
  text of the numbers is not modelled), a text, or a model serialised by \<^verbatim>\<open>joblib\<close>.
  The world is the directories and files on disk and the lines printed so far. Creating
  the directory and writing a file are taken to succeed.
\<close>

datatype content =
    Csv "string list" "(string \<times> real) list"
  | Text string
  | Joblib model

record world =
  dirs :: "string set"
  files :: "string \<rightharpoonup> content"
  stdout :: "string list"

definition path_exists :: "world \<Rightarrow> string \<Rightarrow> bool" where
  "path_exists w p = (p \<in> dirs w \<or> files w p \<noteq> None)"

definition makedirs :: "string \<Rightarrow> world \<Rightarrow> world" where
  "makedirs p w = w\<lparr>dirs := insert p (dirs w)\<rparr>"

definition write_file :: "string \<Rightarrow> content \<Rightarrow> world \<Rightarrow> world" where
  "write_file p c w = w\<lparr>files := (files w)(p \<mapsto> c)\<rparr>"

definition print_line :: "string \<Rightarrow> world \<Rightarrow> world" where
  "print_line l w = w\<lparr>stdout := stdout w @ [l]\<rparr>"

definition newline :: string where
  "newline = [CHR 0x0A]"

definition header_line :: "string \<times> real \<Rightarrow> string" where
  "header_line row = ''const float '' @ fst row @ '' = '' @ format_6f (snd row) @ '';'' @ newline"

definition header_text :: "(string \<times> real) list \<Rightarrow> string" where
  "header_text coeff_df =
     ''#ifndef MODEL_COEFFICIENTS_H'' @ newline @
     ''#define MODEL_COEFFICIENTS_H'' @ newline @ newline @
     concat (map header_line coeff_df) @
     newline @ ''#endif''"

definition coeff_path :: "model \<Rightarrow> string \<Rightarrow> instant \<Rightarrow> string" where
  "coeff_path m output_dir now =
     path_join output_dir (class_name m @ ''_coeff_'' @ strftime now @ ''.csv'')"

definition header_path :: "string \<Rightarrow> string" where
  "header_path output_dir = path_join output_dir ''model_coefficients.h''"

definition joblib_path :: "model \<Rightarrow> string \<Rightarrow> instant \<Rightarrow> string" where
  "joblib_path m output_dir now =
     path_join output_dir (class_name m @ ''_'' @ strftime now @ ''.joblib'')"

definition export_ensemble :: "model \<Rightarrow> string \<Rightarrow> instant \<Rightarrow> world \<Rightarrow> world" where
  "export_ensemble m output_dir now w =
     print_line ''Exported model in joblib format for reference''
       (print_line ''Tree-based models require TinyML conversion for Arduino deployment''
          (write_file (joblib_path m output_dir now) (Joblib m) w))"

text \<open>
  \<^verbatim>\<open>save_coefficients(model, features, output_dir)\<close>, run at the instant \<open>now\<close> in the
  world \<open>w\<close>: the path it returns and the world it leaves, or the error of building the
  coefficient table from lists of different lengths.
\<close>

definition save_coefficients ::
  "model \<Rightarrow> string list \<Rightarrow> string \<Rightarrow> instant \<Rightarrow> world \<Rightarrow> error + string \<times> world" where
  "save_coefficients m features output_dir now w =
     (let w1 = (if \<not> path_exists w output_dir then makedirs output_dir w else w);
          filepath = coeff_path m output_dir now;
          saved = print_line (''Saved coefficients to: '' @ filepath)
      in case m of
           LinearModel intercept coef \<Rightarrow>
             if length (intercept # coef) \<noteq> length (''intercept'' # features)
             then Inl (ValueError ''All arrays must be of the same length'')
             else
               (let coeff_df = zip (''intercept'' # features) (intercept # coef);
                    w2 = write_file filepath (Csv [''feature'', ''coefficient''] coeff_df) w1;
                    w3 = write_file (header_path output_dir) (Text (header_text coeff_df)) w2;
                    w4 = print_line (newline @ ''Saved Arduino header to: '' @ header_path output_dir) w3
                in Inr (filepath, saved w4))
         | RandomForestModel \<Rightarrow> Inr (filepath, saved (export_ensemble m output_dir now w1))
         | GradientBoostingModel \<Rightarrow> Inr (filepath, saved (export_ensemble m output_dir now w1))
         | OtherModel name \<Rightarrow> Inr (filepath, saved w1))"

definition feature_names :: "string list" where
  "feature_names = [''ratio'', ''variability'', ''slope'', ''pulse_rate'', ''acdc_ratio'']"

definition empty_world :: world where
  "empty_world = \<lparr>dirs = {}, files = Map.empty, stdout = []\<rparr>"

section \<open>Vocabulary of the properties\<close>

text \<open>
  Which files of a directory parse, and the frame a parsing file gives; these name what the
  loop of \<open>load_files\<close> decides file by file.
\<close>

definition csv_files :: "os \<Rightarrow> string \<Rightarrow> string list" where
  "csv_files env data_path = filter (\<lambda>f. endswith f ''.csv'') (listdir env data_path)"

definition parses :: "os \<Rightarrow> string \<Rightarrow> string \<Rightarrow> bool" where
  "parses env data_path file =
     (case read_csv env (path_join data_path file) of Inr df \<Rightarrow> True | Inl e \<Rightarrow> False)"

definition parsed :: "os \<Rightarrow> string \<Rightarrow> string \<Rightarrow> frame" where
  "parsed env data_path file =
     (case read_csv env (path_join data_path file) of
        Inr df \<Rightarrow> df
      | Inl e \<Rightarrow> \<lparr>columns = [], records = []\<rparr>)"

text \<open>The number a string of decimal digits denotes.\<close>

definition digit_value :: "char \<Rightarrow> nat" where
  "digit_value c = of_char c - 48"

definition digits_value :: "string \<Rightarrow> nat" where
  "digits_value s = foldl (\<lambda>a c. 10 * a + digit_value c) 0 s"

text \<open>
  The directory part that \<open>path_join\<close> puts before a relative file name, and the models
  \<^verbatim>\<open>train_model\<close> can return.
\<close>

definition dir_prefix :: "string \<Rightarrow> string" where
  "dir_prefix a = (if a = [] \<or> last a = CHR ''/'' then a else a @ ''/'')"

fun supported :: "model \<Rightarrow> bool" where
  "supported (OtherModel name) = False"
| "supported m = True"

fun is_linear :: "model \<Rightarrow> bool" where
  "is_linear (LinearModel b ws) = True"
| "is_linear m = False"

section \<open>Sample data\<close>

text \<open>
  A raw row with the given timestamp, ratio and glucose, and the row the feature derivation
  makes of a raw row with the given ratio.
\<close>

definition raw :: "string \<Rightarrow> real option \<Rightarrow> real option \<Rightarrow> row" where
  "raw t x g = \<lparr>timestamp = t, ratio = x, variability = Some 1, slope = Some 2, glucose = g\<rparr>"

definition reading :: "string \<Rightarrow> real \<Rightarrow> frow" where
  "reading t x = derive (raw t (Some x) (Some 100))"

definition sample_frame :: frame where
  "sample_frame =
     \<lparr>columns = [''timestamp'', ''ratio'', ''variability'', ''slope'', ''glucose''],
      records = [[Txt ''t1'', Num 1, Num 2, Num 3, Num 100]]\<rparr>"

text \<open>A directory with one file that parses, one that does not, and one that is no CSV file.\<close>

definition sample_os :: os where
  "sample_os =
     \<lparr>isdir = (\<lambda>p. p = ''data''),
      listdir = (\<lambda>p. [''a.csv'', ''bad.csv'', ''notes.txt'']),
      read_csv = (\<lambda>p. if p = ''data/a.csv'' then Inr sample_frame
                        else Inl (OtherError ''ParserError''))\<rparr>"

text \<open>A directory whose one CSV file parses to a frame without the glucose column.\<close>

definition partial_frame :: frame where
  "partial_frame =
     \<lparr>columns = [''timestamp'', ''ratio'', ''variability'', ''slope''],
      records = [[Txt ''t1'', Num 1, Num 2, Num 3]]\<rparr>"

definition partial_os :: os where
  "partial_os =
     \<lparr>isdir = (\<lambda>p. p = ''data''),
      listdir = (\<lambda>p. [''a.csv'']),
      read_csv = (\<lambda>p. if p = ''data/a.csv'' then Inr partial_frame
                        else Inl (OtherError ''FileNotFoundError''))\<rparr>"

definition run1_time :: instant where
  "run1_time =
     \<lparr>year = 2024, month = 1, day = 5, hour = 12, minute = 0, second = 9, nanosecond = 0\<rparr>"

definition run2_time :: instant where
  "run2_time =
     \<lparr>year = 2024, month = 1, day = 5, hour = 12, minute = 0, second = 10, nanosecond = 0\<rparr>"

definition sample_linear :: model where
  "sample_linear = LinearModel (1711 / 20) [25 / 2, - (1 / 128), 0, 2 / 3, - 4]"

section \<open>Auxiliary facts\<close>

subsection \<open>Outlier removal only filters\<close>

lemma set_foldl_filter_column: "set (foldl (filter_column f) df cs) \<subseteq> set df"
proof (induction cs arbitrary: df)
  case Nil
  show ?case by simp
next
  case (Cons c cs)
  have "set (foldl (filter_column f) (filter_column f df c) cs) \<subseteq> set (filter_column f df c)"
    by (rule Cons.IH)
  moreover have "set (filter_column f df c) \<subseteq> set df"
    by (simp add: filter_column_def)
  ultimately show ?case by simp
qed

lemma set_outlier_stage: "set (outlier_stage df) \<subseteq> set df"
  by (simp add: outlier_stage_def remove_outliers_def set_foldl_filter_column)

lemma subseq_foldl_filter_column: "subseq (foldl (filter_column f) df cs) df"
proof (induction cs arbitrary: df)
  case Nil
  show ?case by simp
next
  case (Cons c cs)
  have "subseq (foldl (filter_column f) (filter_column f df c) cs) (filter_column f df c)"
    by (rule Cons.IH)
  moreover have "subseq (filter_column f df c) df"
    by (simp add: filter_column_def)
  ultimately show ?case
    using subseq_order.trans by fastforce
qed

lemma filter_column_id:
  "filter_column f df c = df \<longleftrightarrow> (\<forall>r\<in>set df. keeps f c df r)"
  by (simp add: filter_column_def filter_id_conv)

lemma length_filter_column: "length (filter_column f df c) \<le> length df"
  by (simp add: filter_column_def)

lemma length_foldl_filter_column: "length (foldl (filter_column f) df cs) \<le> length df"
proof (induction cs arbitrary: df)
  case Nil
  show ?case by simp
next
  case (Cons c cs)
  have "length (foldl (filter_column f) (filter_column f df c) cs) \<le> length (filter_column f df c)"
    by (rule Cons.IH)
  with length_filter_column [of f df c] show ?case by simp
qed

lemma filter_column_same_length:
  assumes "length (filter_column f df c) = length df"
  shows "filter_column f df c = df"
proof -
  have "\<forall>r\<in>set df. keeps f c df r"
  proof (rule ccontr)
    assume "\<not> (\<forall>r\<in>set df. keeps f c df r)"
    then obtain r where "r \<in> set df" "\<not> keeps f c df r" by blast
    then have "length (filter (keeps f c df) df) < length df"
      by (rule length_filter_less)
    with assms show False by (simp add: filter_column_def)
  qed
  then show ?thesis by (simp add: filter_column_id)
qed

text \<open>A frame is a fixed point of the column loop exactly when no column step drops a row of it.\<close>

lemma foldl_filter_column_fixed:
  "foldl (filter_column f) df cs = df \<longleftrightarrow> (\<forall>c\<in>set cs. \<forall>r\<in>set df. keeps f c df r)"
proof (induction cs)
  case Nil
  show ?case by simp
next
  case (Cons c cs)
  show ?case
  proof
    assume eq: "foldl (filter_column f) df (c # cs) = df"
    have "length df = length (foldl (filter_column f) (filter_column f df c) cs)"
      using eq by simp
    also have "\<dots> \<le> length (filter_column f df c)"
      by (rule length_foldl_filter_column)
    finally have "length (filter_column f df c) = length df"
      using length_filter_column [of f df c] by simp
    then have one: "filter_column f df c = df"
      by (rule filter_column_same_length)
    with eq have "foldl (filter_column f) df cs = df" by simp
    with Cons.IH one show "\<forall>c\<in>set (c # cs). \<forall>r\<in>set df. keeps f c df r"
      by (simp add: filter_column_id)
  next
    assume all: "\<forall>c\<in>set (c # cs). \<forall>r\<in>set df. keeps f c df r"
    then have "filter_column f df c = df" by (simp add: filter_column_id)
    moreover from all Cons.IH have "foldl (filter_column f) df cs = df" by simp
    ultimately show "foldl (filter_column f) df (c # cs) = df" by simp
  qed
qed

lemmas stage_defs = outlier_stage_def remove_outliers_def outlier_columns_def filter_column_def
  keeps_def in_bounds_def quantile_def

lemmas reading_defs = reading_def raw_def derive_def eps_def

lemma derive_glucose: "glucose (derive r) = glucose r"
  by (simp add: derive_def)

lemma physiological_range:
  "physiological r \<Longrightarrow> \<exists>g. glucose r = Some g \<and> 40 \<le> g \<and> g \<le> 400"
  by (cases "glucose r") (simp_all add: physiological_def)

subsection \<open>The directory loop\<close>

lemma load_files_parsed:
  "load_files (read_csv env) data_path fs
     = map (parsed env data_path) (filter (parses env data_path) fs)"
  by (induction fs) (simp_all add: parses_def parsed_def split: sum.splits)

lemma load_directory_eq:
  "load_directory env data_path =
     (if filter (parses env data_path) (csv_files env data_path) = [] then Inl no_valid_files
      else Inr (concat_frames (map (parsed env data_path)
                  (filter (parses env data_path) (csv_files env data_path)))))"
  by (simp add: load_directory_def load_files_parsed csv_files_def)

subsection \<open>The scaler after the three lines\<close>

lemma standardize_scaler:
  "snd (standardize X_train X_test)
     = (case scaler_fit X_train of Inl e \<Rightarrow> None | Inr p \<Rightarrow> Some p)"
  by (simp add: standardize_def fit_transform_def transform_def split: sum.splits prod.splits)

subsection \<open>Decimal digits and the fixed-point format\<close>

lemma digits_small: "n < 10 \<Longrightarrow> digits n = [digit n]"
  by (simp add: digits.simps)

lemma digits_large: "10 \<le> n \<Longrightarrow> digits n = digits (n div 10) @ [digit (n mod 10)]"
  by (subst digits.simps) simp

lemma replicate_numeral: "replicate (numeral v) x = x # replicate (numeral v - 1) x"
  by (simp add: numeral_eq_Suc)

lemmas format_eval = format_6f_def round_half_even_def sign_text_def zfill_def digits_small
  digits_large digit_def replicate_numeral

lemma below_ten:
  assumes "d < (10::nat)"
  shows "d \<in> {0, 1, 2, 3, 4, 5, 6, 7, 8, 9}"
  using assms by auto

lemma digit_value_digit: "d < 10 \<Longrightarrow> digit_value (digit d) = d"
  using below_ten [of d] by (auto simp: digit_def digit_value_def)

lemma digit_is_decimal: "d < 10 \<Longrightarrow> digit d \<in> set ''0123456789''"
  using below_ten [of d] by (auto simp: digit_def)

lemma digits_decimal: "set (digits n) \<subseteq> set ''0123456789''"
proof (induction n rule: digits.induct)
  case (1 n)
  show ?case
  proof (cases "n < 10")
    case True
    then show ?thesis using digit_is_decimal [of n] by (simp add: digits_small)
  next
    case False
    then have "set (digits (n div 10)) \<subseteq> set ''0123456789''" by (rule "1.IH")
    moreover have "digit (n mod 10) \<in> set ''0123456789''" by (rule digit_is_decimal) simp
    ultimately show ?thesis using False by (simp add: digits_large)
  qed
qed

lemma digits_value_snoc: "digits_value (s @ [c]) = 10 * digits_value s + digit_value c"
  by (simp add: digits_value_def)

lemma digits_value_digits: "digits_value (digits n) = n"
proof (induction n rule: digits.induct)
  case (1 n)
  show ?case
  proof (cases "n < 10")
    case True
    then show ?thesis by (simp add: digits_small digits_value_def digit_value_digit)
  next
    case False
    then have "digits_value (digits (n div 10)) = n div 10" by (rule "1.IH")
    with False show ?thesis by (simp add: digits_large digits_value_snoc digit_value_digit)
  qed
qed

lemma length_digits: "0 < k \<Longrightarrow> n < 10 ^ k \<Longrightarrow> length (digits n) \<le> k"
proof (induction k arbitrary: n)
  case 0
  then show ?case by simp
next
  case (Suc k)
  show ?case
  proof (cases "n < 10")
    case True
    then show ?thesis by (simp add: digits_small)
  next
    case False
    then have k: "0 < k" using Suc.prems by (cases k) auto
    have "n div 10 < 10 ^ k" using Suc.prems by (simp add: less_mult_imp_div_less mult.commute)
    with k have "length (digits (n div 10)) \<le> k" by (rule Suc.IH)
    with False show ?thesis by (simp add: digits_large)
  qed
qed

lemma foldl_zeros:
  "foldl (\<lambda>a c. 10 * a + digit_value c) 0 (replicate k (CHR ''0'')) = 0"
  by (induction k) (simp_all add: digit_value_def)

lemma digits_value_zfill: "digits_value (zfill w s) = digits_value s"
  by (simp add: zfill_def digits_value_def foldl_zeros)

lemma zfill_decimal: "set s \<subseteq> set ''0123456789'' \<Longrightarrow> set (zfill w s) \<subseteq> set ''0123456789''"
  by (auto simp: zfill_def)

lemma length_zfill: "length s \<le> w \<Longrightarrow> length (zfill w s) = w"
  by (simp add: zfill_def)

lemma round_half_even_near:
  assumes "0 \<le> y"
  shows "\<bar>real (round_half_even y) - y\<bar> \<le> 1 / 2"
proof -
  define f where "f = nat \<lfloor>y\<rfloor>"
  have "real f = of_int \<lfloor>y\<rfloor>" using assms by (simp add: f_def)
  then have lo: "real f \<le> y" and hi: "y < real f + 1" by linarith+
  have r: "round_half_even y =
      (if y - real f < 1 / 2 then f else if 1 / 2 < y - real f then f + 1
       else if even f then f else f + 1)"
    unfolding round_half_even_def f_def Let_def by (rule refl)
  consider "y - real f < 1 / 2" | "1 / 2 < y - real f" | "y - real f = 1 / 2"
    by linarith
  then show ?thesis
  proof cases
    case 1
    with lo show ?thesis by (simp add: r)
  next
    case 2
    with hi show ?thesis by (simp add: r)
  next
    case 3
    then show ?thesis by (cases "even f") (simp_all add: r)
  qed
qed

text \<open>
  The text of a formatted number is its sign, digits, a point and six digits, and the number
  these digits denote is within half a millionth of the absolute value.
\<close>

lemma format_6f_shape:
  "\<exists>ip fr. format_6f v = sign_text v @ ip @ ''.'' @ fr \<and> length fr = 6 \<and>
      set ip \<subseteq> set ''0123456789'' \<and> set fr \<subseteq> set ''0123456789'' \<and>
      \<bar>real (digits_value ip) + real (digits_value fr) / 10 ^ 6 - \<bar>v\<bar>\<bar> \<le> 1 / (2 * 10 ^ 6)"
proof -
  define q where "q = round_half_even (\<bar>v\<bar> * 10 ^ 6)"
  define ip where "ip = digits (q div 10 ^ 6)"
  define fr where "fr = zfill 6 (digits (q mod 10 ^ 6))"
  have fmt: "format_6f v = sign_text v @ ip @ ''.'' @ fr"
    by (simp add: format_6f_def q_def ip_def fr_def Let_def)
  have "length (digits (q mod 10 ^ 6)) \<le> 6"
    by (rule length_digits) simp_all
  then have len: "length fr = 6" unfolding fr_def by (rule length_zfill)
  have dip: "set ip \<subseteq> set ''0123456789''" unfolding ip_def by (rule digits_decimal)
  have dfr: "set fr \<subseteq> set ''0123456789''"
    unfolding fr_def by (rule zfill_decimal) (rule digits_decimal)
  have vip: "digits_value ip = q div 10 ^ 6" by (simp add: ip_def digits_value_digits)
  have vfr: "digits_value fr = q mod 10 ^ 6"
    by (simp add: fr_def digits_value_zfill digits_value_digits)
  have "real q = real (q div 10 ^ 6 * 10 ^ 6 + q mod 10 ^ 6)"
    by (simp only: div_mult_mod_eq)
  then have "real q = real (q div 10 ^ 6) * 10 ^ 6 + real (q mod 10 ^ 6)"
    by (simp only: of_nat_add of_nat_mult of_nat_power of_nat_numeral)
  then have val: "real (digits_value ip) + real (digits_value fr) / 10 ^ 6 = real q / 10 ^ 6"
    by (simp add: vip vfr field_simps)
  have "\<bar>real q - \<bar>v\<bar> * 10 ^ 6\<bar> \<le> 1 / 2"
    unfolding q_def by (rule round_half_even_near) simp
  then have close: "\<bar>real q / 10 ^ 6 - \<bar>v\<bar>\<bar> \<le> 1 / (2 * 10 ^ 6)"
    by (simp add: field_simps abs_le_iff)
  have near:
    "\<bar>real (digits_value ip) + real (digits_value fr) / 10 ^ 6 - \<bar>v\<bar>\<bar> \<le> 1 / (2 * 10 ^ 6)"
    unfolding val by (rule close)
  from fmt len dip dfr near show ?thesis by blast
qed

lemma run1_stamp: "strftime run1_time = ''20240105_120009''"
  by (simp add: strftime_def run1_time_def zfill_def digits_small digits_large digit_def
      replicate_numeral)

lemma run2_stamp: "strftime run2_time = ''20240105_120010''"
  by (simp add: strftime_def run2_time_def zfill_def digits_small digits_large digit_def
      replicate_numeral)

subsection \<open>The paths and files of an export\<close>

lemma path_join_relative:
  "b \<noteq> [] \<Longrightarrow> hd b \<noteq> CHR ''/'' \<Longrightarrow> path_join a b = dir_prefix a @ b"
  by (simp add: path_join_def dir_prefix_def)

lemma header_path_eq: "header_path d = dir_prefix d @ ''model_coefficients.h''"
  by (simp add: header_path_def path_join_relative)

lemma coeff_path_eq:
  "supported m \<Longrightarrow>
     coeff_path m d t = dir_prefix d @ class_name m @ ''_coeff_'' @ strftime t @ ''.csv''"
  by (cases m) (simp_all add: coeff_path_def path_join_relative)

lemma joblib_path_eq:
  "supported m \<Longrightarrow>
     joblib_path m d t = dir_prefix d @ class_name m @ ''_'' @ strftime t @ ''.joblib''"
  by (cases m) (simp_all add: joblib_path_def path_join_relative)

lemma coeff_path_not_header: "supported m \<Longrightarrow> coeff_path m d t \<noteq> header_path d"
  by (cases m) (simp_all add: coeff_path_eq header_path_eq)

lemmas world_ops = write_file_def print_line_def makedirs_def export_ensemble_def

lemma save_linear_returns:
  assumes "length ws = length fs"
  shows "\<exists>w'. save_coefficients (LinearModel b ws) fs d t w
            = Inr (coeff_path (LinearModel b ws) d t, w')"
  using assms by (simp add: save_coefficients_def Let_def)

lemma files_linear:
  assumes "save_coefficients (LinearModel b ws) fs d t w = Inr (p, w')"
  shows "p = coeff_path (LinearModel b ws) d t \<and>
         files w' = (files w)
           (coeff_path (LinearModel b ws) d t \<mapsto>
              Csv [''feature'', ''coefficient''] (zip (''intercept'' # fs) (b # ws)),
            header_path d \<mapsto> Text (header_text (zip (''intercept'' # fs) (b # ws))))"
  using assms by (auto simp: save_coefficients_def Let_def world_ops split: if_splits)

lemma files_ensemble:
  assumes "m = RandomForestModel \<or> m = GradientBoostingModel"
      and "save_coefficients m fs d t w = Inr (p, w')"
  shows "p = coeff_path m d t \<and> files w' = (files w)(joblib_path m d t \<mapsto> Joblib m)"
  using assms by (auto simp: save_coefficients_def Let_def world_ops split: if_splits)

text \<open>The paths one export writes, starting from an empty disk.\<close>

lemma dom_written:
  assumes "supported m" and "save_coefficients m fs d t empty_world = Inr (p, w')"
  shows "dom (files w') =
           (if is_linear m then {coeff_path m d t, header_path d} else {joblib_path m d t})"
proof (cases m)
  case (LinearModel b ws)
  with files_linear [of b ws fs d t empty_world p w'] assms show ?thesis
    by (auto simp: empty_world_def)
next
  case RandomForestModel
  with files_ensemble [of m fs d t empty_world p w'] assms show ?thesis
    by (auto simp: empty_world_def)
next
  case GradientBoostingModel
  with files_ensemble [of m fs d t empty_world p w'] assms show ?thesis
    by (auto simp: empty_world_def)
next
  case (OtherModel name)
  with assms show ?thesis by simp
qed

lemma timestamped_paths_differ:
  assumes "strftime t1 \<noteq> strftime t2" and "supported m1" and "supported m2"
  shows "coeff_path m1 d t1 \<noteq> coeff_path m2 d t2"
    and "joblib_path m1 d t1 \<noteq> joblib_path m2 d t2"
    and "coeff_path m1 d t1 \<noteq> joblib_path m2 d t2"
    and "joblib_path m1 d t1 \<noteq> coeff_path m2 d t2"
    and "joblib_path m1 d t1 \<noteq> header_path d"
  using assms by (cases m1; cases m2; simp add: coeff_path_eq joblib_path_eq header_path_eq)+

section \<open>Claims\<close>

subsection \<open>C1: a second pass of the outlier removal\<close>

text \<open>
  Claim C1 says that the outlier-removal stage is idempotent. It is not: on five rows whose
  ratios are 1, 1, 1, 2 and 4 (the other columns constant) the first pass takes the
  quartiles 1 and 2, keeps the ratios within \<open>[-0.5, 3.5]\<close> and so drops the ratio 4; on the
  four rows left the quartiles are 1 and 1.25, the bounds \<open>[0.625, 1.625]\<close>, and the second
  pass drops the ratio 2 as well.
\<close>

theorem outlier_stage_not_idempotent:
  "outlier_stage (outlier_stage
      [reading ''t1'' 1, reading ''t2'' 1, reading ''t3'' 1, reading ''t4'' 2, reading ''t5'' 4])
   \<noteq> outlier_stage
      [reading ''t1'' 1, reading ''t2'' 1, reading ''t3'' 1, reading ''t4'' 2, reading ''t5'' 4]"
  by (simp add: stage_defs reading_defs)

text \<open>
  Claim C1, amended: the outlier-removal stage only removes rows and keeps the order of the
  others, so applying it twice gives a sub-sequence of applying it once; the two results are
  the same exactly when every row left by the first pass lies, for each of the four columns,
  within the bounds recomputed on the rows the first pass left.
\<close>

theorem outlier_stage_twice:
  "subseq (outlier_stage (outlier_stage df)) (outlier_stage df) \<and>
   (outlier_stage (outlier_stage df) = outlier_stage df \<longleftrightarrow>
      (\<forall>c\<in>set outlier_columns. \<forall>r\<in>set (outlier_stage df).
          keeps (3 / 2) c (outlier_stage df) r))"
proof
  show "subseq (outlier_stage (outlier_stage df)) (outlier_stage df)"
    unfolding outlier_stage_def remove_outliers_def by (rule subseq_foldl_filter_column)
next
  show "outlier_stage (outlier_stage df) = outlier_stage df \<longleftrightarrow>
      (\<forall>c\<in>set outlier_columns. \<forall>r\<in>set (outlier_stage df).
          keeps (3 / 2) c (outlier_stage df) r)"
    using foldl_filter_column_fixed [of "3 / 2" "outlier_stage df" outlier_columns]
    by (simp add: outlier_stage_def remove_outliers_def)
qed

text \<open>
  Witness for C1: on three rows with the ratios 1, 2 and 3 the first pass keeps every row,
  every row is within the bounds of every column, and the second pass changes nothing.
\<close>

theorem outlier_stage_twice_witness:
  "outlier_stage (outlier_stage [reading ''t1'' 1, reading ''t2'' 2, reading ''t3'' 3])
     = outlier_stage [reading ''t1'' 1, reading ''t2'' 2, reading ''t3'' 3]"
proof -
  let ?d = "[reading ''t1'' 1, reading ''t2'' 2, reading ''t3'' 3]"
  have fixed: "outlier_stage ?d = ?d"
    by (simp add: stage_defs reading_defs)
  have "\<forall>c\<in>set outlier_columns. \<forall>r\<in>set (outlier_stage ?d). keeps (3 / 2) c (outlier_stage ?d) r"
    unfolding fixed
    by (simp add: outlier_columns_def keeps_def in_bounds_def quantile_def reading_defs)
  with outlier_stage_twice [of ?d] show ?thesis by blast
qed

subsection \<open>C2: the glucose range of the output\<close>

text \<open>
  Claim C2: whatever the input dataset, every row that \<^verbatim>\<open>preprocess_data\<close> returns has a
  glucose value that is present and lies in the closed interval from 40 to 400.
\<close>

theorem preprocess_glucose_range:
  assumes "preprocess_data data = Inr out"
  shows "\<forall>r\<in>set out. \<exists>g. glucose r = Some g \<and> 40 \<le> g \<and> g \<le> 400"
proof
  fix r assume r: "r \<in> set out"
  from assms obtain imputed where
    out: "out = outlier_stage (map derive (filter physiological imputed))"
    by (auto simp: preprocess_data_def split: sum.splits)
  from r out set_outlier_stage have "r \<in> set (map derive (filter physiological imputed))"
    by blast
  then obtain r0 where "physiological r0" "r = derive r0" by auto
  then show "\<exists>g. glucose r = Some g \<and> 40 \<le> g \<and> g \<le> 400"
    using physiological_range [of r0] by (simp add: derive_glucose)
qed

text \<open>
  Witness for C2: of four rows, one with a missing ratio and a glucose of 500 and one
  without glucose are removed, and the two rows returned have the glucose values 100 and
  120.
\<close>

theorem preprocess_glucose_range_witness:
  "preprocess_data [raw ''t1'' (Some 3) (Some 100), raw ''t2'' None (Some 500),
                    raw ''t3'' (Some 5) (Some 120), raw ''t4'' (Some 4) None]
     = Inr [derive (raw ''t1'' (Some 3) (Some 100)), derive (raw ''t3'' (Some 5) (Some 120))] \<and>
   (\<exists>g. glucose (derive (raw ''t1'' (Some 3) (Some 100))) = Some g \<and> 40 \<le> g \<and> g \<le> 400) \<and>
   (\<exists>g. glucose (derive (raw ''t3'' (Some 5) (Some 120))) = Some g \<and> 40 \<le> g \<and> g \<le> 400)"
proof -
  have i: "impute [raw ''t1'' (Some 3) (Some 100), raw ''t2'' None (Some 500),
                   raw ''t3'' (Some 5) (Some 120), raw ''t4'' (Some 4) None]
      = Inr [raw ''t1'' (Some 3) (Some 100), raw ''t2'' (Some 4) (Some 500),
             raw ''t3'' (Some 5) (Some 120), raw ''t4'' (Some 4) None]"
    by (simp add: impute_def raw_def median_def fill_def)
  have f: "filter physiological [raw ''t1'' (Some 3) (Some 100), raw ''t2'' (Some 4) (Some 500),
             raw ''t3'' (Some 5) (Some 120), raw ''t4'' (Some 4) None]
      = [raw ''t1'' (Some 3) (Some 100), raw ''t3'' (Some 5) (Some 120)]"
    by (simp add: physiological_def raw_def)
  have o: "outlier_stage [derive (raw ''t1'' (Some 3) (Some 100)), derive (raw ''t3'' (Some 5) (Some 120))]
      = [derive (raw ''t1'' (Some 3) (Some 100)), derive (raw ''t3'' (Some 5) (Some 120))]"
    by (simp add: stage_defs derive_def raw_def)
  have run: "preprocess_data [raw ''t1'' (Some 3) (Some 100), raw ''t2'' None (Some 500),
                    raw ''t3'' (Some 5) (Some 120), raw ''t4'' (Some 4) None]
     = Inr [derive (raw ''t1'' (Some 3) (Some 100)), derive (raw ''t3'' (Some 5) (Some 120))]"
    by (simp only: preprocess_data_def i sum.case f list.map o)
  from preprocess_glucose_range [OF run] run show ?thesis by simp
qed

subsection \<open>C3: the model factory\<close>

text \<open>
  Claim C3 says that the error for an unknown model name names the three supported
  choices. For the name \<^verbatim>\<open>svm\<close> the message is \<^verbatim>\<open>Unknown model type: svm\<close>, in which none of
  the three names occurs.
\<close>

theorem train_model_unknown_message:
  "train_model (\<lambda>(e::estimator) (X::unit) (y::unit). (Inr e :: error + estimator)) () () ''svm''
     = Inl (ValueError ''Unknown model type: svm'') \<and>
   \<not> names_all ''Unknown model type: svm'' supported_types"
  by (simp add: train_model_def names_all_def supported_types_def sublist_code)

text \<open>
  Claim C3, amended: for every model name outside linear, random_forest and
  gradient_boosting, \<^verbatim>\<open>train_model\<close> raises a \<^verbatim>\<open>ValueError\<close> whose message is
  \<^verbatim>\<open>Unknown model type: \<close> followed by the name it was given; for each name inside the set it
  constructs the corresponding estimator with its fixed arguments and returns what fitting
  that estimator returns, with no error of its own.
\<close>

theorem train_model_dispatch:
  "(model_type \<notin> set supported_types \<longrightarrow>
      train_model fit X y model_type = Inl (ValueError (''Unknown model type: '' @ model_type))) \<and>
   train_model fit X y ''linear'' = fit LinearRegression X y \<and>
   train_model fit X y ''random_forest'' = fit (RandomForestRegressor 100 5 42) X y \<and>
   train_model fit X y ''gradient_boosting''
     = fit (GradientBoostingRegressor 100 (1 / 10) 3 42) X y"
  by (simp add: train_model_def supported_types_def)

text \<open>Witness for C3: the name \<^verbatim>\<open>svm\<close> is outside the set and gets the error.\<close>

theorem train_model_dispatch_witness:
  "''svm'' \<notin> set supported_types \<and>
   train_model (\<lambda>(e::estimator) (X::unit) (y::unit). (Inr e :: error + estimator)) () () ''svm''
     = Inl (ValueError ''Unknown model type: svm'')"
proof -
  have out: "''svm'' \<notin> set supported_types"
    by (simp add: supported_types_def)
  with train_model_dispatch [of "''svm''"
      "\<lambda>(e::estimator) (X::unit) (y::unit). (Inr e :: error + estimator)" "()" "()"]
  show ?thesis by simp
qed

subsection \<open>C4: loading a directory\<close>

text \<open>
  Claim C4 says that, given a directory, the load fails with an error only when zero files
  parse. In a directory whose one CSV file parses to a frame without the glucose column,
  \<^verbatim>\<open>load_data\<close> fails all the same: the check of the required columns (lines 59 to 62)
  rejects the concatenated frame.
\<close>

theorem load_data_fails_though_file_parses:
  "isdir partial_os ''data'' \<and>
   filter (parses partial_os ''data'') (csv_files partial_os ''data'') = [''a.csv''] \<and>
   load_data partial_os ''data''
     = Inl (ValueError (''Missing required columns: '' @ set_repr [''glucose'']))"
  by (simp add: load_data_def load_directory_eq csv_files_def partial_os_def endswith_def
      parses_def parsed_def path_join_def concat_frames_def first_occurrences_def
      partial_frame_def required_cols_def Let_def)

text \<open>
  Claim C4, amended: when \<^verbatim>\<open>load_data\<close> is given a directory, a file that fails to parse is
  skipped and the loop goes on with the remaining files; the load fails with the error of
  no valid files exactly when none of the CSV files parses (an empty directory included);
  when at least one parses, it returns the rows, without duplicates and with glucose
  present, of the concatenation of the frames of exactly the files that parse, unless that
  concatenation lacks a required column, the one other failure, with the error of missing
  required columns.
\<close>

theorem load_data_directory:
  assumes "isdir env data_path"
  shows "(let good = filter (parses env data_path) (csv_files env data_path);
              data = concat_frames (map (parsed env data_path) good)
          in load_data env data_path =
               (if good = [] then Inl no_valid_files
                else if set required_cols \<subseteq> set (columns data)
                then Inr (dropna_glucose (drop_duplicates data))
                else Inl (ValueError (''Missing required columns: '' @
                       set_repr (filter (\<lambda>c. c \<notin> set (columns data)) required_cols))))) \<and>
         (load_data env data_path = Inl no_valid_files \<longleftrightarrow>
            filter (parses env data_path) (csv_files env data_path) = [])"
  using assms by (simp add: load_data_def load_directory_eq Let_def no_valid_files_def)

text \<open>
  Witness for C4: in a directory with a CSV file that parses, one that does not and a text
  file, \<^verbatim>\<open>load_data\<close> returns the frame of the one that parses.
\<close>

theorem load_data_directory_witness:
  "isdir sample_os ''data'' \<and>
   csv_files sample_os ''data'' = [''a.csv'', ''bad.csv''] \<and>
   filter (parses sample_os ''data'') (csv_files sample_os ''data'') = [''a.csv''] \<and>
   load_data sample_os ''data'' = Inr sample_frame"
proof -
  have d: "isdir sample_os ''data''"
    by (simp add: sample_os_def)
  have c: "csv_files sample_os ''data'' = [''a.csv'', ''bad.csv'']"
    by (simp add: csv_files_def sample_os_def endswith_def)
  have g: "filter (parses sample_os ''data'') [''a.csv'', ''bad.csv''] = [''a.csv'']"
    by (simp add: parses_def sample_os_def path_join_def)
  have p: "parsed sample_os ''data'' ''a.csv'' = sample_frame"
    by (simp add: parsed_def sample_os_def path_join_def)
  have k: "concat_frames [sample_frame] = sample_frame"
    by (simp add: concat_frames_def first_occurrences_def sample_frame_def reindex_def)
  have r: "set required_cols \<subseteq> set (columns sample_frame)"
    by (simp add: required_cols_def sample_frame_def)
  have f: "dropna_glucose (drop_duplicates sample_frame) = sample_frame"
    by (simp add: dropna_glucose_def drop_duplicates_def first_occurrences_def sample_frame_def)
  from load_data_directory [OF d] have "load_data sample_os ''data'' = Inr sample_frame"
    unfolding c g Let_def by (simp add: p k r f)
  with d c g show ?thesis by simp
qed

subsection \<open>C5: the two clinical-accuracy fractions\<close>

text \<open>
  Claim C5 compares the fraction of predictions within 15 mg/dL with the fraction within
  20 mg/dL. The two lines of \<^verbatim>\<open>main\<close> that are to compute them (294 and 295) do not parse,
  so the program computes neither, and there is no function of the source about which to
  state the comparison.
\<close>

subsection \<open>C6: the export of a linear model\<close>

text \<open>
  Claim C6: exporting a linear model over the features ratio, variability, slope,
  pulse_rate and acdc_ratio writes, at the path it returns, a coefficient table of six
  rows, the intercept first and then the features in their order, and writes the header in
  which each name is bound to its value in the format of six decimals: a sign, digits, a
  point and exactly six digits, denoting the value rounded to the nearest millionth.
\<close>

theorem export_linear_model:
  "(\<exists>w'. save_coefficients (LinearModel b [c1, c2, c3, c4, c5]) feature_names output_dir now w
            = Inr (coeff_path (LinearModel b [c1, c2, c3, c4, c5]) output_dir now, w') \<and>
      files w' (coeff_path (LinearModel b [c1, c2, c3, c4, c5]) output_dir now)
        = Some (Csv [''feature'', ''coefficient'']
            [(''intercept'', b), (''ratio'', c1), (''variability'', c2), (''slope'', c3),
             (''pulse_rate'', c4), (''acdc_ratio'', c5)]) \<and>
      files w' (header_path output_dir)
        = Some (Text
            (''#ifndef MODEL_COEFFICIENTS_H'' @ newline @
             ''#define MODEL_COEFFICIENTS_H'' @ newline @ newline @
             ''const float intercept = '' @ format_6f b @ '';'' @ newline @
             ''const float ratio = '' @ format_6f c1 @ '';'' @ newline @
             ''const float variability = '' @ format_6f c2 @ '';'' @ newline @
             ''const float slope = '' @ format_6f c3 @ '';'' @ newline @
             ''const float pulse_rate = '' @ format_6f c4 @ '';'' @ newline @
             ''const float acdc_ratio = '' @ format_6f c5 @ '';'' @ newline @
             newline @ ''#endif''))) \<and>
   (\<forall>v. \<exists>ip fr. format_6f v = sign_text v @ ip @ ''.'' @ fr \<and> length fr = 6 \<and>
      set ip \<subseteq> set ''0123456789'' \<and> set fr \<subseteq> set ''0123456789'' \<and>
      \<bar>real (digits_value ip) + real (digits_value fr) / 10 ^ 6 - \<bar>v\<bar>\<bar> \<le> 1 / (2 * 10 ^ 6))"
proof
  let ?m = "LinearModel b [c1, c2, c3, c4, c5]"
  have len: "length [c1, c2, c3, c4, c5] = length feature_names"
    by (simp add: feature_names_def)
  from save_linear_returns [OF len] obtain w' where
    run: "save_coefficients ?m feature_names output_dir now w = Inr (coeff_path ?m output_dir now, w')"
    by blast
  from files_linear [OF run] have
    fw: "files w' = (files w)
           (coeff_path ?m output_dir now \<mapsto>
              Csv [''feature'', ''coefficient''] (zip (''intercept'' # feature_names) [b, c1, c2, c3, c4, c5]),
            header_path output_dir \<mapsto>
              Text (header_text (zip (''intercept'' # feature_names) [b, c1, c2, c3, c4, c5])))"
    by simp
  have ne: "coeff_path ?m output_dir now \<noteq> header_path output_dir"
    by (rule coeff_path_not_header) simp
  have table: "zip feature_names [c1, c2, c3, c4, c5]
      = [(''ratio'', c1), (''variability'', c2), (''slope'', c3),
         (''pulse_rate'', c4), (''acdc_ratio'', c5)]"
    by (simp add: feature_names_def)
  have csv: "files w' (coeff_path ?m output_dir now)
      = Some (Csv [''feature'', ''coefficient'']
            [(''intercept'', b), (''ratio'', c1), (''variability'', c2), (''slope'', c3),
             (''pulse_rate'', c4), (''acdc_ratio'', c5)])"
    using ne by (simp add: fw table)
  have hdr: "files w' (header_path output_dir)
      = Some (Text
            (''#ifndef MODEL_COEFFICIENTS_H'' @ newline @
             ''#define MODEL_COEFFICIENTS_H'' @ newline @ newline @
             ''const float intercept = '' @ format_6f b @ '';'' @ newline @
             ''const float ratio = '' @ format_6f c1 @ '';'' @ newline @
             ''const float variability = '' @ format_6f c2 @ '';'' @ newline @
             ''const float slope = '' @ format_6f c3 @ '';'' @ newline @
             ''const float pulse_rate = '' @ format_6f c4 @ '';'' @ newline @
             ''const float acdc_ratio = '' @ format_6f c5 @ '';'' @ newline @
             newline @ ''#endif''))"
    by (simp add: fw table header_text_def header_line_def)
  from run csv hdr show "\<exists>w'. save_coefficients ?m feature_names output_dir now w
            = Inr (coeff_path ?m output_dir now, w') \<and>
      files w' (coeff_path ?m output_dir now)
        = Some (Csv [''feature'', ''coefficient'']
            [(''intercept'', b), (''ratio'', c1), (''variability'', c2), (''slope'', c3),
             (''pulse_rate'', c4), (''acdc_ratio'', c5)]) \<and>
      files w' (header_path output_dir)
        = Some (Text
            (''#ifndef MODEL_COEFFICIENTS_H'' @ newline @
             ''#define MODEL_COEFFICIENTS_H'' @ newline @ newline @
             ''const float intercept = '' @ format_6f b @ '';'' @ newline @
             ''const float ratio = '' @ format_6f c1 @ '';'' @ newline @
             ''const float variability = '' @ format_6f c2 @ '';'' @ newline @
             ''const float slope = '' @ format_6f c3 @ '';'' @ newline @
             ''const float pulse_rate = '' @ format_6f c4 @ '';'' @ newline @
             ''const float acdc_ratio = '' @ format_6f c5 @ '';'' @ newline @
             newline @ ''#endif''))"
    by blast
next
  show "\<forall>v. \<exists>ip fr. format_6f v = sign_text v @ ip @ ''.'' @ fr \<and> length fr = 6 \<and>
      set ip \<subseteq> set ''0123456789'' \<and> set fr \<subseteq> set ''0123456789'' \<and>
      \<bar>real (digits_value ip) + real (digits_value fr) / 10 ^ 6 - \<bar>v\<bar>\<bar> \<le> 1 / (2 * 10 ^ 6)"
    using format_6f_shape by blast
qed

text \<open>
  Witness for C6: a model with the intercept 85.55 and the coefficients 12.5, -1/128, 0,
  2/3 and -4, exported into \<^verbatim>\<open>models/production\<close> on an empty disk.
\<close>

theorem export_linear_model_witness:
  "\<exists>w'. save_coefficients (LinearModel (1711 / 20) [25 / 2, - (1 / 128), 0, 2 / 3, - 4])
            feature_names ''models/production'' run1_time empty_world
          = Inr (''models/production/LinearRegression_coeff_20240105_120009.csv'', w') \<and>
      files w' ''models/production/LinearRegression_coeff_20240105_120009.csv''
        = Some (Csv [''feature'', ''coefficient'']
            [(''intercept'', 1711 / 20), (''ratio'', 25 / 2), (''variability'', - (1 / 128)),
             (''slope'', 0), (''pulse_rate'', 2 / 3), (''acdc_ratio'', - 4)]) \<and>
      files w' ''models/production/model_coefficients.h''
        = Some (Text
            (''#ifndef MODEL_COEFFICIENTS_H'' @ newline @
             ''#define MODEL_COEFFICIENTS_H'' @ newline @ newline @
             ''const float intercept = 85.550000;'' @ newline @
             ''const float ratio = 12.500000;'' @ newline @
             ''const float variability = -0.007812;'' @ newline @
             ''const float slope = 0.000000;'' @ newline @
             ''const float pulse_rate = 0.666667;'' @ newline @
             ''const float acdc_ratio = -4.000000;'' @ newline @
             newline @ ''#endif''))"
proof -
  have p: "coeff_path (LinearModel (1711 / 20) [25 / 2, - (1 / 128), 0, 2 / 3, - 4])
             ''models/production'' run1_time
           = ''models/production/LinearRegression_coeff_20240105_120009.csv''"
    by (simp add: coeff_path_def path_join_def run1_stamp)
  have h: "header_path ''models/production'' = ''models/production/model_coefficients.h''"
    by (simp add: header_path_def path_join_def)
  have f: "format_6f (1711 / 20) = ''85.550000''" "format_6f (25 / 2) = ''12.500000''"
    "format_6f (- (1 / 128)) = ''-0.007812''" "format_6f 0 = ''0.000000''"
    "format_6f (2 / 3) = ''0.666667''" "format_6f (- 4) = ''-4.000000''"
    by (simp_all add: format_eval)
  from export_linear_model [of "1711 / 20" "25 / 2" "- (1 / 128)" 0 "2 / 3" "- 4"
      "''models/production''" run1_time empty_world]
  show ?thesis unfolding p h f by simp
qed

subsection \<open>C7: the names of the artifacts\<close>

text \<open>
  Claim C7 says that every artifact is named with the model family and the run timestamp,
  so that runs with distinct timestamps never write to the same path. The header of a
  linear model is written to \<^verbatim>\<open>model_coefficients.h\<close> in the output directory, a name with
  neither: two exports of a linear model at different seconds both write that path.
\<close>

theorem header_path_shared_between_runs:
  "strftime run1_time \<noteq> strftime run2_time \<and>
   files (snd (projr (save_coefficients sample_linear feature_names ''models/production''
                        run1_time empty_world)))
     ''models/production/model_coefficients.h'' \<noteq> None \<and>
   files (snd (projr (save_coefficients sample_linear feature_names ''models/production''
                        run2_time empty_world)))
     ''models/production/model_coefficients.h'' \<noteq> None"
  by (simp add: run1_stamp run2_stamp save_coefficients_def sample_linear_def feature_names_def
      Let_def world_ops header_path_def path_join_def)

text \<open>
  Claim C7, amended: the coefficient table of a linear model and the serialised model of an
  ensemble are named with the class name of the model and the timestamp of the run
  formatted to the second, so that two exports into the same directory whose formatted
  timestamps differ write no such file to the same path; the header of a linear model is
  always written to \<^verbatim>\<open>model_coefficients.h\<close> in the output directory, and it is the one path
  that two exports of linear models share. (Each export starts from an empty disk, so that
  the files on disk after it are the files it wrote.)
\<close>

theorem timestamped_artifacts_distinct:
  assumes "strftime t1 \<noteq> strftime t2"
      and "supported m1" and "supported m2"
      and "save_coefficients m1 fs1 output_dir t1 empty_world = Inr (p1, w1)"
      and "save_coefficients m2 fs2 output_dir t2 empty_world = Inr (p2, w2)"
  shows "dom (files w1) \<inter> dom (files w2)
           = (if is_linear m1 \<and> is_linear m2 then {header_path output_dir} else {})"
proof -
  note d = timestamped_paths_differ [OF assms(1-3), of output_dir]
    timestamped_paths_differ [OF assms(1) [symmetric] assms(3) assms(2), of output_dir]
  have h1: "coeff_path m1 output_dir t1 \<noteq> header_path output_dir"
    using assms(2) by (rule coeff_path_not_header)
  have h2: "coeff_path m2 output_dir t2 \<noteq> header_path output_dir"
    using assms(3) by (rule coeff_path_not_header)
  show ?thesis
    unfolding dom_written [OF assms(2) assms(4)] dom_written [OF assms(3) assms(5)]
    using d h1 h2 by auto
qed

text \<open>
  Witness for C7: two exports of the same linear model, one second apart, share the path of
  the header and no other.
\<close>

theorem timestamped_artifacts_distinct_witness:
  "strftime run1_time \<noteq> strftime run2_time \<and>
   dom (files (snd (projr (save_coefficients sample_linear feature_names ''models/production''
                             run1_time empty_world)))) \<inter>
   dom (files (snd (projr (save_coefficients sample_linear feature_names ''models/production''
                             run2_time empty_world))))
     = {''models/production/model_coefficients.h''}"
proof -
  have ts: "strftime run1_time \<noteq> strftime run2_time"
    by (simp add: run1_stamp run2_stamp)
  have m: "supported sample_linear" "is_linear sample_linear"
    by (simp_all add: sample_linear_def)
  have r1: "save_coefficients sample_linear feature_names ''models/production'' run1_time empty_world
      = Inr (fst (projr (save_coefficients sample_linear feature_names ''models/production''
                           run1_time empty_world)),
             snd (projr (save_coefficients sample_linear feature_names ''models/production''
                           run1_time empty_world)))"
    by (simp add: save_coefficients_def sample_linear_def feature_names_def Let_def)
  have r2: "save_coefficients sample_linear feature_names ''models/production'' run2_time empty_world
      = Inr (fst (projr (save_coefficients sample_linear feature_names ''models/production''
                           run2_time empty_world)),
             snd (projr (save_coefficients sample_linear feature_names ''models/production''
                           run2_time empty_world)))"
    by (simp add: save_coefficients_def sample_linear_def feature_names_def Let_def)
  have h: "header_path ''models/production'' = ''models/production/model_coefficients.h''"
    by (simp add: header_path_def path_join_def)
  from timestamped_artifacts_distinct [OF ts m(1) m(1) r1 r2] ts m(2) h
  show ?thesis by simp
qed

subsection \<open>C8: the scaler is fitted on the training features\<close>

text \<open>
  Claim C8: the scaler that lines 275 to 277 leave is the same whatever the test features
  are, and for training features with at least one row it holds the mean and the
  population variance of each training column; fitting is a function of the training
  features, so fitting the same features again gives the same parameters.
\<close>

theorem scaler_fit_on_train_only:
  "snd (standardize X_train X_test1) = snd (standardize X_train X_test2) \<and>
   (X_train \<noteq> [] \<and> [] \<notin> set X_train \<longrightarrow>
      snd (standardize X_train X_test1)
        = Some \<lparr>fitted_mean = map mean X_train, fitted_var = map variance X_train\<rparr>)"
  by (simp add: standardize_scaler scaler_fit_def no_samples_def list_ex_iff)

text \<open>
  Witness for C8: two training columns of three values, with test features of one row and
  of two rows.
\<close>

theorem scaler_fit_on_train_only_witness:
  "snd (standardize [[1, 2, 3], [4, 4, 4]] [[5], [6]])
     = Some \<lparr>fitted_mean = [2, 4], fitted_var = [2 / 3, 0]\<rparr> \<and>
   snd (standardize [[1, 2, 3], [4, 4, 4]] [[5], [6]])
     = snd (standardize [[1, 2, 3], [4, 4, 4]] [[0, 7], [9, 9]])"
proof -
  have ne: "[[1, 2, 3], [4, 4, 4 :: real]] \<noteq> [] \<and> [] \<notin> set [[1, 2, 3], [4, 4, 4 :: real]]"
    by simp
  have m: "map mean [[1, 2, 3], [4, 4, 4]] = [2, 4]"
    by (simp add: mean_def)
  have v: "map variance [[1, 2, 3], [4, 4, 4]] = [2 / 3, 0]"
    by (simp add: variance_def mean_def power2_eq_square)
  from scaler_fit_on_train_only [of "[[1, 2, 3], [4, 4, 4]]" "[[5], [6]]" "[[0, 7], [9, 9]]"] ne
  show ?thesis unfolding m v by blast
qed

subsection \<open>C9: the path an export returns\<close>

text \<open>
  Claim C9 says that the exporter returns the path of the artifact it wrote. For a random
  forest, exported into \<^verbatim>\<open>models/production\<close> on an empty disk, the only file written is the
  \<^verbatim>\<open>joblib\<close> one, while the path returned, and printed as saved, is that of a coefficient
  table which does not exist.
\<close>

theorem ensemble_returns_unwritten_path:
  "save_coefficients RandomForestModel feature_names ''models/production'' run1_time empty_world
     = Inr (''models/production/RandomForestRegressor_coeff_20240105_120009.csv'',
            \<lparr>dirs = {''models/production''},
             files = [''models/production/RandomForestRegressor_20240105_120009.joblib''
                        \<mapsto> Joblib RandomForestModel],
             stdout = [''Tree-based models require TinyML conversion for Arduino deployment'',
                       ''Exported model in joblib format for reference'',
                       ''Saved coefficients to: models/production/RandomForestRegressor_coeff_20240105_120009.csv'']\<rparr>) \<and>
   [''models/production/RandomForestRegressor_20240105_120009.joblib'' \<mapsto> Joblib RandomForestModel]
     ''models/production/RandomForestRegressor_coeff_20240105_120009.csv'' = None"
  by (simp add: save_coefficients_def Let_def world_ops coeff_path_def joblib_path_def
      path_join_def run1_stamp empty_world_def path_exists_def)

subsection \<open>C10: the two derived features\<close>

text \<open>
  Claim C10: there is a record with a glucose value in range and a ratio of zero that
  passes the whole of \<^verbatim>\<open>preprocess_data\<close> with an \<^verbatim>\<open>acdc_ratio\<close> that is not a number, while
  its \<^verbatim>\<open>pulse_rate\<close>, at a variability of zero, is the finite \<open>60 / 1e-6\<close>. A ratio of zero
  never gives a finite \<^verbatim>\<open>acdc_ratio\<close>, whereas a variability that is not negative always
  gives a finite \<^verbatim>\<open>pulse_rate\<close>.
\<close>

theorem acdc_ratio_unguarded:
  "(\<exists>r out. ratio r = Some 0 \<and> variability r = Some 0 \<and> physiological r \<and>
      preprocess_data [r] = Inr [out] \<and>
      acdc_ratio out = NaN \<and> pulse_rate out = Fin (60 / eps)) \<and>
   (\<forall>r. ratio r = Some 0 \<longrightarrow> (\<forall>y. acdc_ratio (derive r) \<noteq> Fin y)) \<and>
   (\<forall>r v. variability r = Some v \<and> 0 \<le> v \<longrightarrow> pulse_rate (derive r) = Fin (60 / (v + eps)))"
proof (intro conjI)
  let ?r = "\<lparr>timestamp = ''t1'', ratio = Some 0, variability = Some 0, slope = Some 1,
              glucose = Some 100\<rparr>"
  let ?out = "\<lparr>timestamp = ''t1'', ratio = Some 0, variability = Some 0, slope = Some 1,
              glucose = Some 100, pulse_rate = Fin (60 / eps), acdc_ratio = NaN\<rparr>"
  have p: "physiological ?r" by (simp add: physiological_def)
  have i: "impute [?r] = Inr [?r]"
    by (simp add: impute_def median_def fill_def)
  have d: "derive ?r = ?out"
    by (simp add: derive_def eps_def)
  have o: "outlier_stage [?out] = [?out]"
    by (simp add: stage_defs)
  have "preprocess_data [?r] = Inr [?out]"
    by (simp add: preprocess_data_def i p d o)
  with p show "\<exists>r out. ratio r = Some 0 \<and> variability r = Some 0 \<and> physiological r \<and>
      preprocess_data [r] = Inr [out] \<and>
      acdc_ratio out = NaN \<and> pulse_rate out = Fin (60 / eps)"
    by (intro exI [of _ ?r] exI [of _ ?out]) simp
next
  show "\<forall>r. ratio r = Some 0 \<longrightarrow> (\<forall>y. acdc_ratio (derive r) \<noteq> Fin y)"
  proof (intro allI impI)
    fix r :: row and y
    assume "ratio r = Some 0"
    then show "acdc_ratio (derive r) \<noteq> Fin y"
      by (cases "variability r") (simp_all add: derive_def)
  qed
next
  show "\<forall>r v. variability r = Some v \<and> 0 \<le> v \<longrightarrow> pulse_rate (derive r) = Fin (60 / (v + eps))"
    by (simp add: derive_def eps_def add_nonneg_eq_0_iff)
qed

text \<open>
  Witness for C10: a row with the ratio 0 and the variability 1 has the \<^verbatim>\<open>acdc_ratio\<close>
  infinity and a finite \<^verbatim>\<open>pulse_rate\<close>.
\<close>

theorem acdc_ratio_unguarded_witness:
  "ratio (raw ''t1'' (Some 0) (Some 100)) = Some 0 \<and>
   acdc_ratio (derive (raw ''t1'' (Some 0) (Some 100))) = PInf \<and>
   acdc_ratio (derive (raw ''t1'' (Some 0) (Some 100))) \<noteq> Fin 0 \<and>
   variability (raw ''t1'' (Some 0) (Some 100)) = Some 1 \<and>
   pulse_rate (derive (raw ''t1'' (Some 0) (Some 100))) = Fin (60 / (1 + eps))"
proof -
  have a: "ratio (raw ''t1'' (Some 0) (Some 100)) = Some 0"
    by (simp add: raw_def)
  have b: "variability (raw ''t1'' (Some 0) (Some 100)) = Some 1 \<and> (0::real) \<le> 1"
    by (simp add: raw_def)
  have d: "acdc_ratio (derive (raw ''t1'' (Some 0) (Some 100))) = PInf"
    by (simp add: derive_def raw_def)
  from acdc_ratio_unguarded a
  have n: "acdc_ratio (derive (raw ''t1'' (Some 0) (Some 100))) \<noteq> Fin 0"
    by blast
  from acdc_ratio_unguarded b
  have "pulse_rate (derive (raw ''t1'' (Some 0) (Some 100))) = Fin (60 / (1 + eps))"
    by blast
  with a b d n show ?thesis by simp
qed

end
